theory Spec2Isabelle
  imports Main "HOL-Library.Sublist"
begin

section \<open>logging\_utils.py: two functions over the root logger\<close>

text \<open>
  The module configures Python's root logger once, when it is loaded, and exposes
  \<^verbatim>\<open>log_info\<close> and \<^verbatim>\<open>log_error\<close>, which forward their argument to
  \<^verbatim>\<open>logging.info\<close> and \<^verbatim>\<open>logging.error\<close>. Everything observable is decided
  by the call path through the \<^verbatim>\<open>logging\<close> package (CPython 3.11,
  \<^verbatim>\<open>logging/__init__.py\<close>), so that path is embedded here function by function,
  under the names it has there: \<^verbatim>\<open>basicConfig\<close>, \<^verbatim>\<open>Logger.info\<close>,
  \<^verbatim>\<open>Logger.isEnabledFor\<close>, \<^verbatim>\<open>Logger.callHandlers\<close>, \<^verbatim>\<open>StreamHandler.emit\<close>,
  \<^verbatim>\<open>Handler.handleError\<close>, \<^verbatim>\<open>Formatter.format\<close>.

  What the interpreter's surroundings decide is an input of the model: the wall clock
  read when a record is created, the text the \<^verbatim>\<open>traceback\<close> module prints,
  the stream \<^verbatim>\<open>sys.stderr\<close> is bound to, if any, and whether a stream accepts a
  write.
\<close>

subsection \<open>Exceptions\<close>

text \<open>
  The exception classes the call path tells apart. \<^verbatim>\<open>KeyboardInterrupt\<close> stands for
  the classes that derive from \<^verbatim>\<open>BaseException\<close> but not from \<^verbatim>\<open>Exception\<close>.
\<close>

datatype exn =
  OSError | ValueError | KeyError | TypeError | AttributeError | RecursionError | KeyboardInterrupt

definition is_Exception :: "exn \<Rightarrow> bool" where
  "is_Exception e = (e \<noteq> KeyboardInterrupt)"

subsection \<open>The \<^verbatim>\<open>%\<close> operator on strings\<close>

text \<open>
  \<^verbatim>\<open>fmt % values\<close> with a dictionary on the right, as \<^verbatim>\<open>PercentStyle._format\<close>
  uses it. The scanner reads the template left to right. After \<^verbatim>\<open>%(\<close> it collects
  the key up to the matching parenthesis (nested parentheses are counted, as CPython
  does), looks the key up (\<^verbatim>\<open>KeyError\<close> when absent) and expects the conversion.
  The model covers literal text, \<^verbatim>\<open>%%\<close> and \<^verbatim>\<open>%(key)s\<close>, which is all that the
  templates of this program contain; a template that ends inside a directive raises
  \<^verbatim>\<open>ValueError\<close> as in Python, and any other conversion, flag or width is rejected
  with \<^verbatim>\<open>ValueError\<close> too (Python's answer to an unsupported format character).
  The values are strings, so the conversion \<^verbatim>\<open>s\<close> inserts them unchanged.
\<close>

datatype scan_mode = Text | Percent | InKey nat string | Conv string

definition emit_str :: "string \<Rightarrow> exn + string \<Rightarrow> exn + string" where
  "emit_str v r = (case r of Inl e \<Rightarrow> Inl e | Inr s \<Rightarrow> Inr (v @ s))"

fun format_mapping :: "scan_mode \<Rightarrow> (string \<rightharpoonup> string) \<Rightarrow> string \<Rightarrow> exn + string" where
  "format_mapping Text d [] = Inr []"
| "format_mapping Text d (c # cs) =
     (if c = CHR ''%'' then format_mapping Percent d cs
      else emit_str [c] (format_mapping Text d cs))"
| "format_mapping Percent d [] = Inl ValueError"
| "format_mapping Percent d (c # cs) =
     (if c = CHR ''('' then format_mapping (InKey 1 []) d cs
      else if c = CHR ''%'' then emit_str [c] (format_mapping Text d cs)
      else Inl ValueError)"
| "format_mapping (InKey n k) d [] = Inl ValueError"
| "format_mapping (InKey n k) d (c # cs) =
     (if c = CHR '')'' then
        (if n = 1 then
           (case d k of None \<Rightarrow> Inl KeyError | Some v \<Rightarrow> format_mapping (Conv v) d cs)
         else format_mapping (InKey (n - 1) (k @ [c])) d cs)
      else if c = CHR ''('' then format_mapping (InKey (n + 1) (k @ [c])) d cs
      else format_mapping (InKey n (k @ [c])) d cs)"
| "format_mapping (Conv v) d [] = Inl ValueError"
| "format_mapping (Conv v) d (c # cs) =
     (if c = CHR ''s'' then emit_str v (format_mapping Text d cs) else Inl ValueError)"

text \<open>
  \<^verbatim>\<open>msg % args\<close> with a tuple on the right, as \<^verbatim>\<open>LogRecord.getMessage\<close> uses it
  when arguments were passed: each \<^verbatim>\<open>%s\<close> consumes the next argument,
  \<^verbatim>\<open>TypeError\<close> when there are too few or too many, or when a key is asked of a
  tuple. The same subset of directives.
\<close>

fun format_tuple :: "string list \<Rightarrow> string \<Rightarrow> exn + string" where
  "format_tuple as [] = (if as = [] then Inr [] else Inl TypeError)"
| "format_tuple as [c] =
     (if c = CHR ''%'' then Inl ValueError
      else if as = [] then Inr [c] else Inl TypeError)"
| "format_tuple as (c # c' # cs) =
     (if c = CHR ''%'' then
        (if c' = CHR ''%'' then emit_str [c'] (format_tuple as cs)
         else if c' = CHR ''('' then Inl TypeError
         else if c' = CHR ''s'' then
           (case as of [] \<Rightarrow> Inl TypeError | a # as' \<Rightarrow> emit_str a (format_tuple as' cs))
         else Inl ValueError)
      else emit_str [c] (format_tuple as (c' # cs)))"

subsection \<open>Severity levels\<close>

definition CRITICAL :: int where "CRITICAL = 50"
definition ERROR :: int where "ERROR = 40"
definition WARNING :: int where "WARNING = 30"
definition INFO :: int where "INFO = 20"
definition DEBUG :: int where "DEBUG = 10"
definition NOTSET :: int where "NOTSET = 0"

definition digit_char :: "nat \<Rightarrow> char" where
  "digit_char n = ''0123456789'' ! (n mod 10)"

fun str_nat :: "nat \<Rightarrow> string" where
  "str_nat n = (if n < 10 then [digit_char n] else str_nat (n div 10) @ [digit_char n])"

declare str_nat.simps [simp del]

definition str_int :: "int \<Rightarrow> string" where
  "str_int i = (if i < 0 then CHR ''-'' # str_nat (nat (- i)) else str_nat (nat i))"

text \<open>
  \<^verbatim>\<open>getLevelName\<close>: the name registered in \<^verbatim>\<open>_levelToName\<close>, and
  \<^verbatim>\<open>"Level %s" % level\<close> for an integer that has none.
\<close>

definition levelToName :: "int \<rightharpoonup> string" where
  "levelToName = [CRITICAL \<mapsto> ''CRITICAL'', ERROR \<mapsto> ''ERROR'', WARNING \<mapsto> ''WARNING'',
                  INFO \<mapsto> ''INFO'', DEBUG \<mapsto> ''DEBUG'', NOTSET \<mapsto> ''NOTSET'']"

definition getLevelName :: "int \<Rightarrow> string" where
  "getLevelName level =
     (case levelToName level of Some n \<Rightarrow> n | None \<Rightarrow> ''Level '' @ str_int level)"

subsection \<open>Time stamps\<close>

text \<open>
  The clock reading of a record: \<^verbatim>\<open>time.localtime(record.created)\<close>, broken down,
  and \<^verbatim>\<open>record.msecs\<close>. The conversions from the floating-point epoch time are the
  platform's and are not part of the model.
\<close>

record clock_reading =
  tm_year :: nat
  tm_mon :: nat
  tm_mday :: nat
  tm_hour :: nat
  tm_min :: nat
  tm_sec :: nat
  msecs :: nat

definition zero_pad :: "nat \<Rightarrow> string \<Rightarrow> string" where
  "zero_pad w s = replicate (w - length s) CHR ''0'' @ s"

text \<open>\<^verbatim>\<open>time.strftime('%Y-%m-%d %H:%M:%S', ct)\<close>\<close>

definition strftime_default :: "clock_reading \<Rightarrow> string" where
  "strftime_default ct =
     str_nat (tm_year ct) @ ''-'' @ zero_pad 2 (str_nat (tm_mon ct)) @ ''-'' @
     zero_pad 2 (str_nat (tm_mday ct)) @ '' '' @ zero_pad 2 (str_nat (tm_hour ct)) @ '':'' @
     zero_pad 2 (str_nat (tm_min ct)) @ '':'' @ zero_pad 2 (str_nat (tm_sec ct))"

text \<open>
  \<^verbatim>\<open>Formatter.formatTime\<close> without a date format:
  \<^verbatim>\<open>'%s,%03d' % (strftime(default_time_format, ct), record.msecs)\<close>.
\<close>

definition formatTime :: "clock_reading \<Rightarrow> string" where
  "formatTime ct = strftime_default ct @ '','' @ zero_pad 3 (str_nat (msecs ct))"

subsection \<open>Log records and formatters\<close>

text \<open>
  The attributes of a \<^verbatim>\<open>LogRecord\<close> that the templates of this program can name.
  \<^verbatim>\<open>exc_info\<close> and \<^verbatim>\<open>stack_info\<close> are never passed by the module and stay
  \<^verbatim>\<open>None\<close>, so \<^verbatim>\<open>Formatter.format\<close> appends nothing after the message.
\<close>

record LogRecord =
  rec_name :: string
  rec_msg :: string
  rec_args :: "string list"
  levelname :: string
  levelno :: int
  created :: clock_reading

record call_env =
  now :: clock_reading
  traceback_text :: "string list"

definition makeRecord :: "string \<Rightarrow> int \<Rightarrow> string \<Rightarrow> string list \<Rightarrow> call_env \<Rightarrow> LogRecord" where
  "makeRecord nm level m as env =
     \<lparr>rec_name = nm, rec_msg = m, rec_args = as, levelname = getLevelName level,
      levelno = level, created = now env\<rparr>"

text \<open>
  \<^verbatim>\<open>LogRecord.getMessage\<close>: \<^verbatim>\<open>msg = str(self.msg); if self.args: msg = msg % self.args\<close>.
\<close>

definition getMessage :: "LogRecord \<Rightarrow> exn + string" where
  "getMessage r = (if rec_args r \<noteq> [] then format_tuple (rec_args r) (rec_msg r)
                   else Inr (rec_msg r))"

text \<open>\<^verbatim>\<open>str.find\<close>, with \<open>None\<close> for \<^verbatim>\<open>-1\<close>.\<close>

fun str_find :: "string \<Rightarrow> string \<Rightarrow> nat option" where
  "str_find [] sub = (if sub = [] then Some 0 else None)"
| "str_find (c # cs) sub =
     (if prefix sub (c # cs) then Some 0 else map_option Suc (str_find cs sub))"

definition usesTime :: "string \<Rightarrow> bool" where
  "usesTime fmt = (str_find fmt ''%(asctime)'' \<noteq> None)"

text \<open>
  \<^verbatim>\<open>record.__dict__\<close> as \<^verbatim>\<open>Formatter.format\<close> hands it to the style, after it has
  stored \<^verbatim>\<open>message\<close> and, when the template uses the time, \<^verbatim>\<open>asctime\<close>.
\<close>

definition record_dict :: "LogRecord \<Rightarrow> string \<Rightarrow> string option \<Rightarrow> (string \<rightharpoonup> string)" where
  "record_dict r message asctime =
     [''name'' \<mapsto> rec_name r, ''msg'' \<mapsto> rec_msg r, ''levelname'' \<mapsto> levelname r,
      ''levelno'' \<mapsto> str_int (levelno r), ''message'' \<mapsto> message]
     ++ (case asctime of None \<Rightarrow> Map.empty | Some a \<Rightarrow> [''asctime'' \<mapsto> a])"

text \<open>\<^verbatim>\<open>PercentStyle.format\<close> turns a \<^verbatim>\<open>KeyError\<close> into a \<^verbatim>\<open>ValueError\<close>.\<close>

definition PercentStyle_format :: "string \<Rightarrow> (string \<rightharpoonup> string) \<Rightarrow> exn + string" where
  "PercentStyle_format fmt values =
     (case format_mapping Text values fmt of
        Inl e \<Rightarrow> if e = KeyError then Inl ValueError else Inl e
      | Inr s \<Rightarrow> Inr s)"

definition Formatter_format :: "string \<Rightarrow> LogRecord \<Rightarrow> exn + string" where
  "Formatter_format fmt r =
     (case getMessage r of
        Inl e \<Rightarrow> Inl e
      | Inr message \<Rightarrow>
          PercentStyle_format fmt
            (record_dict r message
               (if usesTime fmt then Some (formatTime (created r)) else None)))"

definition BASIC_FORMAT :: string where
  "BASIC_FORMAT = ''%(levelname)s:%(name)s:%(message)s''"

definition default_format :: string where
  "default_format = ''%(message)s''"

text \<open>\<^verbatim>\<open>PercentStyle.__init__\<close>: \<^verbatim>\<open>self._fmt = fmt or self.default_format\<close>.\<close>

definition Formatter_init :: "string \<Rightarrow> string" where
  "Formatter_init fs = (if fs = [] then default_format else fs)"

subsection \<open>Streams and the process state\<close>

text \<open>
  A stream is what has been written to it, one entry per call of \<^verbatim>\<open>write\<close>, and the
  exception its operations raise when it is out of order (a closed file raises
  \<^verbatim>\<open>ValueError\<close>, a broken pipe \<^verbatim>\<open>OSError\<close>); \<open>None\<close> is a working stream.
\<close>

record stream =
  written :: "string list"
  fault :: "exn option"

definition stream_write :: "stream \<Rightarrow> string \<Rightarrow> exn + stream" where
  "stream_write st x =
     (case fault st of Some e \<Rightarrow> Inl e | None \<Rightarrow> Inr (st\<lparr>written := written st @ [x]\<rparr>))"

definition stream_flush :: "stream \<Rightarrow> exn + stream" where
  "stream_flush st = (case fault st of Some e \<Rightarrow> Inl e | None \<Rightarrow> Inr st)"

fun write_all :: "stream \<Rightarrow> string list \<Rightarrow> exn option \<times> stream" where
  "write_all st [] = (None, st)"
| "write_all st (x # xs) =
     (case stream_write st x of Inl e \<Rightarrow> (Some e, st) | Inr st' \<Rightarrow> write_all st' xs)"

text \<open>
  Stream objects live in a store and are named by their address, so that the stream a
  handler holds and the stream \<^verbatim>\<open>sys.stderr\<close> is bound to can be the same object or
  different ones. A reference is an address, or \<open>None\<close> for Python's \<^verbatim>\<open>None\<close>.

  The \<^verbatim>\<open>stream\<close> attribute of a handler: \<^verbatim>\<open>StreamHandler.__init__\<close> stores a
  reference once (\<^verbatim>\<open>if stream is None: stream = sys.stderr\<close>); for a
  \<^verbatim>\<open>_StderrHandler\<close> it is a property that reads \<^verbatim>\<open>sys.stderr\<close> at every access.
\<close>

datatype stream_attr = Bound "nat option" | CurrentStderr

text \<open>
  A handler: its level, the template of its formatter (\<open>None\<close> when no formatter is
  set) and its stream. No filter is ever attached to a handler or to the root logger,
  so \<^verbatim>\<open>Filterer.filter\<close> accepts every record and is left out.
\<close>

record handler =
  h_level :: int
  formatter :: "string option"
  h_stream :: stream_attr

text \<open>
  The state that the call path reads or writes: the root logger's level, handlers and
  \<^verbatim>\<open>disabled\<close> flag, \<^verbatim>\<open>manager.disable\<close>, the module flag
  \<^verbatim>\<open>raiseExceptions\<close>, the binding of \<^verbatim>\<open>sys.stderr\<close> (\<open>None\<close> when the
  interpreter has no standard error stream) and the store of stream objects. The memo
  table of \<^verbatim>\<open>isEnabledFor\<close> holds results of the computation below and is cleared
  by \<^verbatim>\<open>setLevel\<close>; it is not part of the state here.
\<close>

record process_state =
  root_level :: int
  root_handlers :: "handler list"
  root_disabled :: bool
  manager_disable :: int
  raiseExceptions :: bool
  sys_stderr :: "nat option"
  streams :: "nat \<Rightarrow> stream"

text \<open>
  The state once \<^verbatim>\<open>import logging\<close> has run, \<^verbatim>\<open>root = RootLogger(WARNING)\<close>, in
  a process whose stream objects are \<open>ss\<close> and whose \<^verbatim>\<open>sys.stderr\<close> is \<open>r\<close>.
\<close>

definition interpreter_start :: "(nat \<Rightarrow> stream) \<Rightarrow> nat option \<Rightarrow> process_state" where
  "interpreter_start ss r =
     \<lparr>root_level = WARNING, root_handlers = [], root_disabled = False,
      manager_disable = 0, raiseExceptions = True, sys_stderr = r, streams = ss\<rparr>"

subsection \<open>Handlers\<close>

definition terminator :: string where
  "terminator = ''\<newline>''"

definition Handler_format :: "handler \<Rightarrow> LogRecord \<Rightarrow> exn + string" where
  "Handler_format h r =
     Formatter_format (case formatter h of Some f \<Rightarrow> f | None \<Rightarrow> default_format) r"

definition handler_stream :: "handler \<Rightarrow> process_state \<Rightarrow> nat option" where
  "handler_stream h s = (case h_stream h of Bound r \<Rightarrow> r | CurrentStderr \<Rightarrow> sys_stderr s)"

text \<open>
  \<^verbatim>\<open>Handler.handleError\<close>, under its guard \<^verbatim>\<open>if raiseExceptions and sys.stderr\<close>:
  the error is reported on the stream \<^verbatim>\<open>sys.stderr\<close> is bound to (a header line,
  then the traceback text), and only an \<^verbatim>\<open>OSError\<close> raised while reporting is
  swallowed. Without \<^verbatim>\<open>sys.stderr\<close>, or with the flag off, nothing is done.
\<close>

definition handleError :: "string list \<Rightarrow> process_state \<Rightarrow> exn option \<times> process_state" where
  "handleError report s =
     (case (raiseExceptions s, sys_stderr s) of
        (True, Some b) \<Rightarrow>
          (case write_all (streams s b) (''--- Logging error ---\<newline>'' # report) of
             (Some e, st) \<Rightarrow>
               (if e = OSError then None else Some e, s\<lparr>streams := (streams s)(b := st)\<rparr>)
           | (None, st) \<Rightarrow> (None, s\<lparr>streams := (streams s)(b := st)\<rparr>))
      | _ \<Rightarrow> (None, s))"

text \<open>
  The \<^verbatim>\<open>except\<close> clauses of \<^verbatim>\<open>StreamHandler.emit\<close>: a \<^verbatim>\<open>RecursionError\<close> is
  raised again, any other \<^verbatim>\<open>Exception\<close> goes to \<^verbatim>\<open>handleError\<close>, and what is not
  an \<^verbatim>\<open>Exception\<close> is not caught.
\<close>

definition emit_except :: "exn \<Rightarrow> call_env \<Rightarrow> process_state \<Rightarrow> exn option \<times> process_state" where
  "emit_except e env s =
     (if e = RecursionError then (Some e, s)
      else if is_Exception e then handleError (traceback_text env) s
      else (Some e, s))"

text \<open>
  \<^verbatim>\<open>StreamHandler.emit\<close>: format the record, write it with the terminator to the
  handler's stream and flush. A handler whose stream is \<^verbatim>\<open>None\<close> fails at
  \<^verbatim>\<open>stream.write\<close> with \<^verbatim>\<open>AttributeError\<close>.
\<close>

definition StreamHandler_emit ::
  "handler \<Rightarrow> LogRecord \<Rightarrow> call_env \<Rightarrow> process_state \<Rightarrow> exn option \<times> process_state" where
  "StreamHandler_emit h r env s =
     (case Handler_format h r of
        Inl e \<Rightarrow> emit_except e env s
      | Inr m \<Rightarrow>
          (case handler_stream h s of
             None \<Rightarrow> emit_except AttributeError env s
           | Some a \<Rightarrow>
               (case stream_write (streams s a) (m @ terminator) of
                  Inl e \<Rightarrow> emit_except e env s
                | Inr st \<Rightarrow>
                    (case stream_flush st of
                       Inl e \<Rightarrow> emit_except e env (s\<lparr>streams := (streams s)(a := st)\<rparr>)
                     | Inr st' \<Rightarrow> (None, s\<lparr>streams := (streams s)(a := st')\<rparr>)))))"

subsection \<open>The root logger\<close>

text \<open>The loop of \<^verbatim>\<open>Logger.callHandlers\<close> over \<^verbatim>\<open>c.handlers\<close>.\<close>

fun call_each ::
  "handler list \<Rightarrow> LogRecord \<Rightarrow> call_env \<Rightarrow> process_state \<Rightarrow> exn option \<times> process_state" where
  "call_each [] r env s = (None, s)"
| "call_each (h # hs) r env s =
     (if levelno r \<ge> h_level h then
        (case StreamHandler_emit h r env s of
           (Some e, s') \<Rightarrow> (Some e, s')
         | (None, s') \<Rightarrow> call_each hs r env s')
      else call_each hs r env s)"

text \<open>\<^verbatim>\<open>lastResort = _StderrHandler(WARNING)\<close>, used when no handler was found.\<close>

definition lastResort :: handler where
  "lastResort = \<lparr>h_level = WARNING, formatter = None, h_stream = CurrentStderr\<rparr>"

definition callHandlers :: "LogRecord \<Rightarrow> call_env \<Rightarrow> process_state \<Rightarrow> exn option \<times> process_state" where
  "callHandlers r env s =
     (case call_each (root_handlers s) r env s of
        (Some e, s') \<Rightarrow> (Some e, s')
      | (None, s') \<Rightarrow>
          (if length (root_handlers s) = 0 then
             (if levelno r \<ge> h_level lastResort then StreamHandler_emit lastResort r env s'
              else (None, s'))
           else (None, s')))"

definition Logger_handle :: "LogRecord \<Rightarrow> call_env \<Rightarrow> process_state \<Rightarrow> exn option \<times> process_state" where
  "Logger_handle r env s = (if \<not> root_disabled s then callHandlers r env s else (None, s))"

definition Logger__log ::
  "int \<Rightarrow> string \<Rightarrow> string list \<Rightarrow> call_env \<Rightarrow> process_state \<Rightarrow> exn option \<times> process_state" where
  "Logger__log level m as env s = Logger_handle (makeRecord ''root'' level m as env) env s"

text \<open>The root logger has no parent, so the loop of \<^verbatim>\<open>getEffectiveLevel\<close> runs once.\<close>

definition getEffectiveLevel :: "process_state \<Rightarrow> int" where
  "getEffectiveLevel s = (if root_level s \<noteq> 0 then root_level s else NOTSET)"

definition isEnabledFor :: "int \<Rightarrow> process_state \<Rightarrow> bool" where
  "isEnabledFor level s =
     (if root_disabled s then False
      else if manager_disable s \<ge> level then False
      else level \<ge> getEffectiveLevel s)"

definition Logger_info ::
  "string \<Rightarrow> string list \<Rightarrow> call_env \<Rightarrow> process_state \<Rightarrow> exn option \<times> process_state" where
  "Logger_info m as env s =
     (if isEnabledFor INFO s then Logger__log INFO m as env s else (None, s))"

definition Logger_error ::
  "string \<Rightarrow> string list \<Rightarrow> call_env \<Rightarrow> process_state \<Rightarrow> exn option \<times> process_state" where
  "Logger_error m as env s =
     (if isEnabledFor ERROR s then Logger__log ERROR m as env s else (None, s))"

text \<open>\<^verbatim>\<open>Logger.log\<close>, the same body at a level chosen by the caller.\<close>

definition Logger_log ::
  "int \<Rightarrow> string \<Rightarrow> string list \<Rightarrow> call_env \<Rightarrow> process_state \<Rightarrow> exn option \<times> process_state" where
  "Logger_log level m as env s =
     (if isEnabledFor level s then Logger__log level m as env s else (None, s))"

subsection \<open>The module-level functions of \<^verbatim>\<open>logging\<close>\<close>

text \<open>
  \<^verbatim>\<open>basicConfig(level=..., format=...)\<close>, without \<^verbatim>\<open>force\<close>, \<^verbatim>\<open>handlers\<close>,
  \<^verbatim>\<open>stream\<close> or \<^verbatim>\<open>filename\<close>: it acts only when the root logger has no handler.
  Then it creates a \<^verbatim>\<open>StreamHandler()\<close>, which takes the stream that
  \<^verbatim>\<open>sys.stderr\<close> is bound to at that moment (level \<^verbatim>\<open>NOTSET\<close>),
  gives it a formatter for the template (\<^verbatim>\<open>BASIC_FORMAT\<close> when none is passed),
  adds it to the root logger and, when a level is passed, sets the root level.
  The validation of the template by \<^verbatim>\<open>Formatter.__init__\<close> accepts every template
  holding a \<^verbatim>\<open>%(key)s\<close> directive, which all templates passed here do.
\<close>

definition basicConfig :: "int option \<Rightarrow> string option \<Rightarrow> process_state \<Rightarrow> process_state" where
  "basicConfig level format s =
     (if length (root_handlers s) = 0 then
        (let fs = (case format of None \<Rightarrow> BASIC_FORMAT | Some f \<Rightarrow> f);
             h = \<lparr>h_level = NOTSET, formatter = Some (Formatter_init fs),
                  h_stream = Bound (sys_stderr s)\<rparr>;
             s1 = s\<lparr>root_handlers := root_handlers s @ [h]\<rparr>
         in (case level of None \<Rightarrow> s1 | Some l \<Rightarrow> s1\<lparr>root_level := l\<rparr>))
      else s)"

text \<open>
  \<^verbatim>\<open>logging.info(msg, *args)\<close> and \<^verbatim>\<open>logging.error(msg, *args)\<close>:
  \<^verbatim>\<open>if len(root.handlers) == 0: basicConfig()\<close>, then the call on the root logger.
\<close>

definition logging_info ::
  "string \<Rightarrow> string list \<Rightarrow> call_env \<Rightarrow> process_state \<Rightarrow> exn option \<times> process_state" where
  "logging_info m as env s =
     Logger_info m as env
       (if length (root_handlers s) = 0 then basicConfig None None s else s)"

definition logging_error ::
  "string \<Rightarrow> string list \<Rightarrow> call_env \<Rightarrow> process_state \<Rightarrow> exn option \<times> process_state" where
  "logging_error m as env s =
     Logger_error m as env
       (if length (root_handlers s) = 0 then basicConfig None None s else s)"

text \<open>\<^verbatim>\<open>logging.log(level, msg, *args)\<close>, the same at any level.\<close>

definition logging_log ::
  "int \<Rightarrow> string \<Rightarrow> string list \<Rightarrow> call_env \<Rightarrow> process_state \<Rightarrow> exn option \<times> process_state" where
  "logging_log level m as env s =
     Logger_log level m as env
       (if length (root_handlers s) = 0 then basicConfig None None s else s)"

subsection \<open>The module \<^verbatim>\<open>logging_utils\<close>\<close>

text \<open>
  Line 6, \<^verbatim>\<open>logging.basicConfig(level=logging.INFO,
  format='%(asctime)s - %(levelname)s - %(message)s')\<close>.
\<close>

definition LOG_FORMAT :: string where
  "LOG_FORMAT = ''%(asctime)s - %(levelname)s - %(message)s''"

definition configure :: "process_state \<Rightarrow> process_state" where
  "configure s = basicConfig (Some INFO) (Some LOG_FORMAT) s"

text \<open>Lines 8 to 12: both functions pass the message and no arguments.\<close>

definition log_info :: "string \<Rightarrow> call_env \<Rightarrow> process_state \<Rightarrow> exn option \<times> process_state" where
  "log_info message env s = logging_info message [] env s"

definition log_error :: "string \<Rightarrow> call_env \<Rightarrow> process_state \<Rightarrow> exn option \<times> process_state" where
  "log_error message env s = logging_error message [] env s"

text \<open>
  The module body, run with \<^verbatim>\<open>__name__\<close> bound to \<open>nm\<close>: the configuration, then
  under the guard of line 15 the two example calls. An exception leaves the body at
  the call that raised it. \<open>env1\<close> and \<open>env2\<close> are the surroundings of the two calls.
\<close>

definition module_body ::
  "string \<Rightarrow> call_env \<Rightarrow> call_env \<Rightarrow> process_state \<Rightarrow> exn option \<times> process_state" where
  "module_body nm env1 env2 s0 =
     (let s1 = configure s0 in
      if nm = ''__main__'' then
        (case log_info ''This is an info message.'' env1 s1 of
           (Some e, s2) \<Rightarrow> (Some e, s2)
         | (None, s2) \<Rightarrow> log_error ''This is an error message.'' env2 s2)
      else (None, s1))"

text \<open>
  The state in which every call of \<^verbatim>\<open>log_info\<close> and \<^verbatim>\<open>log_error\<close> runs: the
  module has been loaded by a fresh interpreter whose stream objects are \<open>ss\<close> and
  whose \<^verbatim>\<open>sys.stderr\<close> is \<open>r\<close>.
\<close>

definition loaded :: "(nat \<Rightarrow> stream) \<Rightarrow> nat option \<Rightarrow> process_state" where
  "loaded ss r = configure (interpreter_start ss r)"

text \<open>
  The exit status of \<^verbatim>\<open>python logging_utils.py\<close>: 0 when the body ends, 1 when
  an exception leaves it, 130 for \<^verbatim>\<open>KeyboardInterrupt\<close>.
\<close>

definition exit_status :: "exn option \<Rightarrow> nat" where
  "exit_status r =
     (case r of None \<Rightarrow> 0 | Some e \<Rightarrow> if e = KeyboardInterrupt then 130 else 1)"

definition run_script ::
  "call_env \<Rightarrow> call_env \<Rightarrow> (nat \<Rightarrow> stream) \<Rightarrow> nat option \<Rightarrow> nat \<times> (nat \<Rightarrow> stream)" where
  "run_script env1 env2 ss r =
     (case module_body ''__main__'' env1 env2 (interpreter_start ss r) of
        (x, s) \<Rightarrow> (exit_status x, streams s))"

subsection \<open>Reading a line back\<close>

text \<open>
  \<^verbatim>\<open>line.split(sep, maxsplit)\<close> as a consumer of the log would call it to take a
  line apart: at most \<open>maxsplit\<close> cuts, each at the leftmost occurrence of the
  separator in what remains. \<open>partition\<close> is \<^verbatim>\<open>str.partition\<close> without the
  separator in its result, \<open>None\<close> when the separator does not occur.
\<close>

fun partition_sep :: "string \<Rightarrow> string \<Rightarrow> (string \<times> string) option" where
  "partition_sep sep [] = (if sep = [] then Some ([], []) else None)"
| "partition_sep sep (c # cs) =
     (if prefix sep (c # cs) then Some ([], drop (length sep) (c # cs))
      else map_option (\<lambda>(a, b). (c # a, b)) (partition_sep sep cs))"

fun split_max :: "string \<Rightarrow> nat \<Rightarrow> string \<Rightarrow> string list" where
  "split_max sep 0 s = [s]"
| "split_max sep (Suc n) s =
     (case partition_sep sep s of None \<Rightarrow> [s] | Some (a, b) \<Rightarrow> a # split_max sep n b)"

text \<open>
  A text in which no blank is followed by a hyphen: no occurrence of the separator
  \<^verbatim>\<open>' - '\<close> can begin inside it, whatever follows it.
\<close>

fun blank_hyphen_free :: "string \<Rightarrow> bool" where
  "blank_hyphen_free [] = True"
| "blank_hyphen_free [c] = True"
| "blank_hyphen_free (c # d # cs) =
     ((c \<noteq> CHR '' '' \<or> d \<noteq> CHR ''-'') \<and> blank_hyphen_free (d # cs))"

text \<open>
  The lines of a text as a reader of the console sees them: the text is cut at every
  line feed, and a last piece without a line feed counts when it is not empty.
\<close>

fun split_lines :: "string \<Rightarrow> string \<Rightarrow> string list" where
  "split_lines cur [] = (if cur = [] then [] else [cur])"
| "split_lines cur (c # cs) =
     (if c = CHR ''\<newline>'' then cur # split_lines [] cs else split_lines (cur @ [c]) cs)"

section \<open>Properties of the call path\<close>

subsection \<open>Configuration and formatting\<close>

lemma loaded_eq:
  "loaded ss r =
     \<lparr>root_level = INFO,
      root_handlers = [\<lparr>h_level = NOTSET, formatter = Some LOG_FORMAT, h_stream = Bound r\<rparr>],
      root_disabled = False, manager_disable = 0, raiseExceptions = True,
      sys_stderr = r, streams = ss\<rparr>"
  by (simp add: loaded_def configure_def basicConfig_def interpreter_start_def
      Formatter_init_def LOG_FORMAT_def)

lemma usesTime_LOG_FORMAT: "usesTime LOG_FORMAT"
  by (simp add: usesTime_def LOG_FORMAT_def)

lemma format_LOG_FORMAT:
  "d ''asctime'' = Some a \<Longrightarrow> d ''levelname'' = Some l \<Longrightarrow> d ''message'' = Some m \<Longrightarrow>
   format_mapping Text d LOG_FORMAT = Inr (a @ '' - '' @ l @ '' - '' @ m)"
  by (simp add: LOG_FORMAT_def emit_str_def)

lemma Formatter_format_LOG_FORMAT:
  "Formatter_format LOG_FORMAT (makeRecord nm level m [] env) =
     Inr (formatTime (now env) @ '' - '' @ getLevelName level @ '' - '' @ m)"
  by (simp add: Formatter_format_def getMessage_def makeRecord_def usesTime_LOG_FORMAT
      PercentStyle_format_def record_dict_def format_LOG_FORMAT)

lemma levelno_makeRecord: "levelno (makeRecord nm level m as env) = level"
  by (simp add: makeRecord_def)

lemma getLevelName_INFO: "getLevelName INFO = ''INFO''"
  by (simp add: getLevelName_def levelToName_def INFO_def ERROR_def WARNING_def CRITICAL_def
      DEBUG_def NOTSET_def)

lemma getLevelName_ERROR: "getLevelName ERROR = ''ERROR''"
  by (simp add: getLevelName_def levelToName_def INFO_def ERROR_def WARNING_def CRITICAL_def
      DEBUG_def NOTSET_def)

subsection \<open>Writing, and reporting a failed write\<close>

lemma write_all_faulty: "fault st = Some y \<Longrightarrow> write_all st (x # xs) = (Some y, st)"
  by (simp add: stream_write_def)

lemma write_all_working:
  "fault st = None \<Longrightarrow> write_all st xs = (None, st\<lparr>written := written st @ xs\<rparr>)"
  by (induction xs arbitrary: st) (simp_all add: stream_write_def)

lemma same_streams: "s\<lparr>streams := (streams s)(b := streams s b)\<rparr> = s"
  by simp

lemma handleError_no_stderr: "sys_stderr s = None \<Longrightarrow> handleError report s = (None, s)"
  by (simp add: handleError_def split: bool.splits)

lemma handleError_faulty:
  assumes "sys_stderr s = Some b" and "fault (streams s b) = Some y"
  shows "handleError report s =
           (if raiseExceptions s then if y = OSError then None else Some y else None, s)"
  using assms
  by (simp add: handleError_def write_all_faulty del: write_all.simps split: bool.splits)

lemma handleError_outcome:
  "fst (handleError report s) =
     (if raiseExceptions s then
        (case sys_stderr s of
           None \<Rightarrow> None
         | Some b \<Rightarrow>
             (case fault (streams s b) of
                None \<Rightarrow> None
              | Some y \<Rightarrow> if y = OSError then None else Some y))
      else None)"
proof (cases "sys_stderr s")
  case None
  then show ?thesis by (simp add: handleError_no_stderr)
next
  case (Some b)
  show ?thesis
  proof (cases "fault (streams s b)")
    case None
    with Some show ?thesis
      by (simp add: handleError_def write_all_working del: write_all.simps split: bool.splits)
  next
    case y: (Some y)
    with Some show ?thesis by (simp add: handleError_faulty)
  qed
qed

lemma emit_working:
  assumes "handler_stream h s = Some a" and "fault (streams s a) = None"
    and "Handler_format h r = Inr line"
  shows "StreamHandler_emit h r env s =
           (None, s\<lparr>streams := (streams s)
              (a := (streams s a)\<lparr>written := written (streams s a) @ [line @ terminator]\<rparr>)\<rparr>)"
  using assms by (simp add: StreamHandler_emit_def stream_write_def stream_flush_def)

lemma emit_failed_write:
  assumes "handler_stream h s = Some a" and "fault (streams s a) = Some x"
    and "Handler_format h r = Inr line"
  shows "StreamHandler_emit h r env s = emit_except x env s"
  using assms by (simp add: StreamHandler_emit_def stream_write_def)

lemma emit_no_stream:
  assumes "handler_stream h s = None" and "Handler_format h r = Inr line"
  shows "StreamHandler_emit h r env s = handleError (traceback_text env) s"
  using assms by (simp add: StreamHandler_emit_def emit_except_def is_Exception_def)

subsection \<open>A call on a root logger with the module's handler\<close>

lemma Handler_format_loaded:
  "Handler_format \<lparr>h_level = NOTSET, formatter = Some LOG_FORMAT, h_stream = b\<rparr>
       (makeRecord nm level m [] env) =
     Inr (formatTime (now env) @ '' - '' @ getLevelName level @ '' - '' @ m)"
  by (simp add: Handler_format_def Formatter_format_LOG_FORMAT)

lemma logging_log_one_handler:
  assumes "root_handlers s = [h]" and "h_level h = NOTSET" and "root_level s = INFO"
    and "\<not> root_disabled s" and "manager_disable s = 0"
  shows "logging_log level m as env s =
           (if INFO \<le> level then StreamHandler_emit h (makeRecord ''root'' level m as env) env s
            else (None, s))"
proof -
  have e: "isEnabledFor level s = (INFO \<le> level)"
    using assms by (auto simp add: isEnabledFor_def getEffectiveLevel_def INFO_def)
  have c: "callHandlers r env s = StreamHandler_emit h r env s" if "NOTSET \<le> levelno r" for r
    using assms(1,2) that
    by (cases "StreamHandler_emit h r env s")
      (simp add: callHandlers_def split: option.splits)
  have "NOTSET \<le> level" if "INFO \<le> level"
    using that by (simp add: INFO_def NOTSET_def)
  then show ?thesis
    using assms(1,4) e
    by (simp add: logging_log_def Logger_log_def Logger__log_def Logger_handle_def c
        levelno_makeRecord)
qed

lemma log_info_is_log: "log_info m env s = logging_log INFO m [] env s"
  by (simp add: log_info_def logging_info_def logging_log_def Logger_info_def Logger_log_def)

lemma log_error_is_log: "log_error m env s = logging_log ERROR m [] env s"
  by (simp add: log_error_def logging_error_def logging_log_def Logger_error_def Logger_log_def)

subsection \<open>The state after the module is loaded, and one call in it\<close>

lemma isEnabledFor_loaded: "isEnabledFor level (loaded ss r) = (INFO \<le> level)"
  by (auto simp add: isEnabledFor_def getEffectiveLevel_def loaded_eq INFO_def)

lemma emit_loaded:
  "StreamHandler_emit \<lparr>h_level = NOTSET, formatter = Some LOG_FORMAT, h_stream = Bound r\<rparr>
       (makeRecord nm level m [] env) env' (loaded ss r) =
     (case r of
        None \<Rightarrow> (None, loaded ss r)
      | Some a \<Rightarrow>
          (case fault (ss a) of
             None \<Rightarrow> (None, loaded (ss(a := (ss a)\<lparr>written := written (ss a) @
                    [formatTime (now env) @ '' - '' @ getLevelName level @ '' - '' @ m @ terminator]\<rparr>)) r)
           | Some x \<Rightarrow> (if x = OSError then None else Some x, loaded ss r)))"
proof (cases r)
  case None
  have "handler_stream \<lparr>h_level = NOTSET, formatter = Some LOG_FORMAT, h_stream = Bound r\<rparr>
      (loaded ss r) = None"
    using None by (simp add: handler_stream_def)
  from emit_no_stream [OF this Handler_format_loaded] show ?thesis
    using None by (simp add: handleError_no_stderr loaded_eq)
next
  case (Some a)
  have hs: "handler_stream \<lparr>h_level = NOTSET, formatter = Some LOG_FORMAT, h_stream = Bound r\<rparr>
      (loaded ss r) = Some a"
    using Some by (simp add: handler_stream_def)
  show ?thesis
  proof (cases "fault (ss a)")
    case None
    then have "fault (streams (loaded ss r) a) = None" by (simp add: loaded_eq)
    from emit_working [OF hs this Handler_format_loaded] show ?thesis
      using None Some by (simp add: loaded_eq)
  next
    case x: (Some x)
    then have f: "fault (streams (loaded ss r) a) = Some x" by (simp add: loaded_eq)
    have sd: "sys_stderr (loaded ss r) = Some a" and re: "raiseExceptions (loaded ss r)"
      using Some by (simp_all add: loaded_eq)
    have "emit_except x env' (loaded ss r) = (if x = OSError then None else Some x, loaded ss r)"
      using re by (cases x) (simp_all add: emit_except_def handleError_faulty [OF sd f]
          is_Exception_def)
    with emit_failed_write [OF hs f Handler_format_loaded] show ?thesis
      using x Some by simp
  qed
qed

lemma logging_log_loaded:
  "logging_log level m [] env (loaded ss r) =
     (if INFO \<le> level then
        (case r of
           None \<Rightarrow> (None, loaded ss r)
         | Some a \<Rightarrow>
             (case fault (ss a) of
                None \<Rightarrow> (None, loaded (ss(a := (ss a)\<lparr>written := written (ss a) @
                    [formatTime (now env) @ '' - '' @ getLevelName level @ '' - '' @ m @ terminator]\<rparr>)) r)
              | Some x \<Rightarrow> (if x = OSError then None else Some x, loaded ss r)))
      else (None, loaded ss r))"
proof -
  have "logging_log level m [] env (loaded ss r) =
      (if INFO \<le> level then
         StreamHandler_emit \<lparr>h_level = NOTSET, formatter = Some LOG_FORMAT, h_stream = Bound r\<rparr>
           (makeRecord ''root'' level m [] env) env (loaded ss r)
       else (None, loaded ss r))"
    by (rule logging_log_one_handler) (simp_all add: loaded_eq)
  then show ?thesis by (simp add: emit_loaded)
qed

lemma log_info_loaded:
  "log_info m env (loaded ss r) =
     (case r of
        None \<Rightarrow> (None, loaded ss r)
      | Some a \<Rightarrow>
          (case fault (ss a) of
             None \<Rightarrow> (None, loaded (ss(a := (ss a)\<lparr>written := written (ss a) @
                    [formatTime (now env) @ '' - INFO - '' @ m @ terminator]\<rparr>)) r)
           | Some x \<Rightarrow> (if x = OSError then None else Some x, loaded ss r)))"
  by (simp add: log_info_is_log logging_log_loaded getLevelName_INFO split: option.splits)

lemma log_error_loaded:
  "log_error m env (loaded ss r) =
     (case r of
        None \<Rightarrow> (None, loaded ss r)
      | Some a \<Rightarrow>
          (case fault (ss a) of
             None \<Rightarrow> (None, loaded (ss(a := (ss a)\<lparr>written := written (ss a) @
                    [formatTime (now env) @ '' - ERROR - '' @ m @ terminator]\<rparr>)) r)
           | Some x \<Rightarrow> (if x = OSError then None else Some x, loaded ss r)))"
proof -
  have "INFO \<le> ERROR" by (simp add: INFO_def ERROR_def)
  then show ?thesis
    by (simp add: log_error_is_log logging_log_loaded getLevelName_ERROR split: option.splits)
qed

subsection \<open>The same call after \<^verbatim>\<open>sys.stderr\<close> has been bound to another stream\<close>

lemma emit_rebound:
  "fst (StreamHandler_emit \<lparr>h_level = NOTSET, formatter = Some LOG_FORMAT, h_stream = Bound r\<rparr>
       (makeRecord nm level m [] env) env' ((loaded ss r)\<lparr>sys_stderr := r'\<rparr>)) =
     (let report =
            (case r' of
               None \<Rightarrow> None
             | Some b \<Rightarrow>
                 (case fault (ss b) of
                    None \<Rightarrow> None
                  | Some y \<Rightarrow> if y = OSError then None else Some y))
      in case r of
           None \<Rightarrow> report
         | Some a \<Rightarrow>
             (case fault (ss a) of
                None \<Rightarrow> None
              | Some x \<Rightarrow> if x = RecursionError \<or> \<not> is_Exception x then Some x else report))"
proof -
  let ?s = "(loaded ss r)\<lparr>sys_stderr := r'\<rparr>"
  let ?h = "\<lparr>h_level = NOTSET, formatter = Some LOG_FORMAT, h_stream = Bound r\<rparr>"
  let ?report = "case r' of None \<Rightarrow> None
     | Some b \<Rightarrow> (case fault (ss b) of None \<Rightarrow> None
                  | Some y \<Rightarrow> if y = OSError then None else Some y)"
  have rep: "fst (handleError (traceback_text env') ?s) = ?report"
    by (simp add: handleError_outcome loaded_eq split: option.splits)
  show ?thesis
  proof (cases r)
    case None
    have "handler_stream ?h ?s = None"
      using None by (simp add: handler_stream_def)
    from emit_no_stream [OF this Handler_format_loaded] show ?thesis
      using None rep by (simp add: Let_def)
  next
    case (Some a)
    have hs: "handler_stream ?h ?s = Some a"
      using Some by (simp add: handler_stream_def)
    show ?thesis
    proof (cases "fault (ss a)")
      case None
      then have "fault (streams ?s a) = None" by (simp add: loaded_eq)
      from emit_working [OF hs this Handler_format_loaded] show ?thesis
        using None Some by (simp add: Let_def)
    next
      case x: (Some x)
      then have "fault (streams ?s a) = Some x" by (simp add: loaded_eq)
      from emit_failed_write [OF hs this Handler_format_loaded] show ?thesis
        using x Some rep by (simp add: Let_def emit_except_def)
    qed
  qed
qed

lemma logging_log_rebound:
  assumes "INFO \<le> level"
  shows "fst (logging_log level m [] env ((loaded ss r)\<lparr>sys_stderr := r'\<rparr>)) =
     (let report =
            (case r' of
               None \<Rightarrow> None
             | Some b \<Rightarrow>
                 (case fault (ss b) of
                    None \<Rightarrow> None
                  | Some y \<Rightarrow> if y = OSError then None else Some y))
      in case r of
           None \<Rightarrow> report
         | Some a \<Rightarrow>
             (case fault (ss a) of
                None \<Rightarrow> None
              | Some x \<Rightarrow> if x = RecursionError \<or> \<not> is_Exception x then Some x else report))"
proof -
  have "logging_log level m [] env ((loaded ss r)\<lparr>sys_stderr := r'\<rparr>) =
      (if INFO \<le> level then
         StreamHandler_emit \<lparr>h_level = NOTSET, formatter = Some LOG_FORMAT, h_stream = Bound r\<rparr>
           (makeRecord ''root'' level m [] env) env ((loaded ss r)\<lparr>sys_stderr := r'\<rparr>)
       else (None, (loaded ss r)\<lparr>sys_stderr := r'\<rparr>))"
    by (rule logging_log_one_handler) (simp_all add: loaded_eq)
  then show ?thesis
    using assms by (simp only: if_True emit_rebound)
qed

subsection \<open>Taking a line apart\<close>

lemma partition_sep_first:
  "blank_hyphen_free xs \<Longrightarrow> partition_sep '' - '' (xs @ '' - '' @ rest) = Some (xs, rest)"
proof (induction xs rule: blank_hyphen_free.induct)
  case 1
  show ?case by simp
next
  case (2 c)
  show ?case by simp
next
  case (3 c d cs)
  then show ?case by auto
qed

lemma split_max_three_fields:
  assumes "blank_hyphen_free a" and "blank_hyphen_free b"
  shows "split_max '' - '' 2 (a @ '' - '' @ b @ '' - '' @ m) = [a, b, m]"
proof -
  have "split_max '' - '' (Suc (Suc 0)) (a @ '' - '' @ (b @ '' - '' @ m)) = [a, b, m]"
    using partition_sep_first [OF assms(1)] partition_sep_first [OF assms(2)]
    by simp
  then show ?thesis by (simp add: numeral_2_eq_2)
qed

lemma no_blank_free: "CHR '' '' \<notin> set xs \<Longrightarrow> blank_hyphen_free xs"
  by (induction xs rule: blank_hyphen_free.induct) auto

lemma no_hyphen_free: "CHR ''-'' \<notin> set xs \<Longrightarrow> blank_hyphen_free xs"
  by (induction xs rule: blank_hyphen_free.induct) auto

lemma blank_first_free: "CHR ''-'' \<notin> set ts \<Longrightarrow> blank_hyphen_free (CHR '' '' # ts)"
  by (cases ts) (auto simp add: no_hyphen_free)

lemma date_time_free:
  "CHR '' '' \<notin> set ds \<Longrightarrow> CHR ''-'' \<notin> set ts \<Longrightarrow> blank_hyphen_free (ds @ CHR '' '' # ts)"
proof (induction ds rule: blank_hyphen_free.induct)
  case 1
  then show ?case by (simp add: blank_first_free)
next
  case (2 c)
  then show ?case by (simp add: blank_first_free)
next
  case (3 c d cs)
  then show ?case by auto
qed

lemma set_str_nat: "set (str_nat n) \<subseteq> set ''0123456789''"
proof (induction n rule: str_nat.induct)
  case (1 n)
  have d: "digit_char k \<in> set ''0123456789''" for k
    unfolding digit_char_def by (rule nth_mem) simp
  show ?case
  proof (cases "n < 10")
    case True
    then show ?thesis using d [of n] by (simp add: str_nat.simps [of n])
  next
    case False
    then show ?thesis using d [of n] 1 by (simp add: str_nat.simps [of n])
  qed
qed

lemma set_zero_pad: "set (zero_pad w (str_nat n)) \<subseteq> set ''0123456789''"
  using set_str_nat [of n] by (auto simp add: zero_pad_def)

lemma formatTime_free: "blank_hyphen_free (formatTime ct)"
proof -
  let ?ds = "str_nat (tm_year ct) @ ''-'' @ zero_pad 2 (str_nat (tm_mon ct)) @ ''-'' @
             zero_pad 2 (str_nat (tm_mday ct))"
  let ?ts = "zero_pad 2 (str_nat (tm_hour ct)) @ '':'' @ zero_pad 2 (str_nat (tm_min ct)) @
             '':'' @ zero_pad 2 (str_nat (tm_sec ct)) @ '','' @ zero_pad 3 (str_nat (msecs ct))"
  have f: "formatTime ct = ?ds @ CHR '' '' # ?ts"
    by (simp add: formatTime_def strftime_default_def)
  have "CHR '' '' \<notin> set ?ds"
    using set_str_nat [of "tm_year ct"] set_zero_pad [of 2 "tm_mon ct"]
      set_zero_pad [of 2 "tm_mday ct"]
    by auto
  moreover have "CHR ''-'' \<notin> set ?ts"
    using set_zero_pad [of 2 "tm_hour ct"] set_zero_pad [of 2 "tm_min ct"]
      set_zero_pad [of 2 "tm_sec ct"] set_zero_pad [of 3 "msecs ct"]
    by auto
  ultimately show ?thesis
    unfolding f by (rule date_time_free)
qed

lemma split_line:
  "split_max '' - '' 2 (formatTime ct @ '' - INFO - '' @ m) = [formatTime ct, ''INFO'', m]"
  "split_max '' - '' 2 (formatTime ct @ '' - ERROR - '' @ m) = [formatTime ct, ''ERROR'', m]"
  using split_max_three_fields [OF formatTime_free, of "''INFO''" ct m]
    split_max_three_fields [OF formatTime_free, of "''ERROR''" ct m]
  by simp_all

text \<open>
  The time stamp holds digits and the four punctuation marks of its format only, so a
  line break inside an emitted line can only come from the message.
\<close>

lemma no_line_break_in_digits: "CHR ''\<newline>'' \<notin> set (zero_pad w (str_nat n))"
  using set_zero_pad [of w n] by auto

lemma no_line_break_in_formatTime: "CHR ''\<newline>'' \<notin> set (formatTime ct)"
proof -
  have "CHR ''\<newline>'' \<notin> set (str_nat (tm_year ct))"
    using set_str_nat [of "tm_year ct"] by auto
  then show ?thesis
    by (simp add: formatTime_def strftime_default_def no_line_break_in_digits)
qed

lemma line_break_only_from_message:
  "CHR ''\<newline>'' \<in> set (formatTime ct @ '' - INFO - '' @ m) \<longleftrightarrow> CHR ''\<newline>'' \<in> set m"
  "CHR ''\<newline>'' \<in> set (formatTime ct @ '' - ERROR - '' @ m) \<longleftrightarrow> CHR ''\<newline>'' \<in> set m"
  by (simp_all add: no_line_break_in_formatTime)

subsection \<open>The lines of a written text\<close>

lemma split_lines_first:
  "CHR ''\<newline>'' \<notin> set xs \<Longrightarrow>
   split_lines cur (xs @ CHR ''\<newline>'' # rest) = (cur @ xs) # split_lines [] rest"
  by (induction xs arbitrary: cur) auto

lemma split_lines_count:
  "length (filter (\<lambda>c. c = CHR ''\<newline>'') ys) \<le> length (split_lines cur ys)"
  by (induction ys arbitrary: cur) simp_all

lemma split_lines_single:
  "split_lines [] (xs @ terminator) = [xs] \<longleftrightarrow> CHR ''\<newline>'' \<notin> set xs"
proof
  assume "CHR ''\<newline>'' \<notin> set xs"
  then show "split_lines [] (xs @ terminator) = [xs]"
    using split_lines_first [of xs "[]" "[]"] by (simp add: terminator_def)
next
  assume one: "split_lines [] (xs @ terminator) = [xs]"
  show "CHR ''\<newline>'' \<notin> set xs"
  proof
    assume "CHR ''\<newline>'' \<in> set xs"
    then have "filter (\<lambda>c. c = CHR ''\<newline>'') xs \<noteq> []"
      by (simp add: filter_empty_conv)
    then have "1 \<le> length (filter (\<lambda>c. c = CHR ''\<newline>'') xs)"
      by (cases "filter (\<lambda>c. c = CHR ''\<newline>'') xs") simp_all
    then have "2 \<le> length (filter (\<lambda>c. c = CHR ''\<newline>'') (xs @ terminator))"
      by (simp add: terminator_def)
    also have "\<dots> \<le> length (split_lines [] (xs @ terminator))"
      by (rule split_lines_count)
    finally show False using one by simp
  qed
qed

lemma written_text_lines:
  "split_lines [] ((formatTime ct @ '' - INFO - '' @ m) @ terminator) =
     [formatTime ct @ '' - INFO - '' @ m] \<longleftrightarrow> CHR ''\<newline>'' \<notin> set m"
  "split_lines [] ((formatTime ct @ '' - ERROR - '' @ m) @ terminator) =
     [formatTime ct @ '' - ERROR - '' @ m] \<longleftrightarrow> CHR ''\<newline>'' \<notin> set m"
  using line_break_only_from_message [of ct m]
  by (simp_all only: split_lines_single)

lemma formatTime_example:
  "formatTime \<lparr>tm_year = 2024, tm_mon = 3, tm_mday = 7, tm_hour = 9, tm_min = 5, tm_sec = 8, msecs = 42\<rparr>
     = ''2024-03-07 09:05:08,042''"
  by (simp add: formatTime_def strftime_default_def zero_pad_def str_nat.simps digit_char_def)

subsection \<open>What a call may change\<close>

lemma handleError_frame:
  "(snd (handleError report s))\<lparr>streams := x\<rparr> = s\<lparr>streams := x\<rparr>"
  by (simp add: handleError_def split: prod.splits option.splits bool.splits)

lemma emit_except_frame:
  "(snd (emit_except e env s))\<lparr>streams := x\<rparr> = s\<lparr>streams := x\<rparr>"
  by (simp add: emit_except_def handleError_frame)

lemma emit_frame:
  "(snd (StreamHandler_emit h r env s))\<lparr>streams := x\<rparr> = s\<lparr>streams := x\<rparr>"
proof (cases "Handler_format h r")
  case (Inl e)
  then show ?thesis by (simp add: StreamHandler_emit_def emit_except_frame)
next
  case (Inr line)
  show ?thesis
  proof (cases "handler_stream h s")
    case None
    with Inr show ?thesis by (simp add: StreamHandler_emit_def emit_except_frame)
  next
    case (Some a)
    show ?thesis
    proof (cases "stream_write (streams s a) (line @ terminator)")
      case (Inl e)
      with Inr Some show ?thesis by (simp add: StreamHandler_emit_def emit_except_frame)
    next
      case w: (Inr st)
      show ?thesis
      proof (cases "stream_flush st")
        case (Inl e)
        have "(snd (emit_except e env (s\<lparr>streams := (streams s)(a := st)\<rparr>)))\<lparr>streams := x\<rparr> =
            s\<lparr>streams := x\<rparr>"
          using emit_except_frame [where e = e and env = env
              and s = "s\<lparr>streams := (streams s)(a := st)\<rparr>" and x = x]
          by simp
        with Inr Some w Inl show ?thesis by (simp add: StreamHandler_emit_def)
      next
        case f: (Inr st')
        with Inr Some w show ?thesis by (simp add: StreamHandler_emit_def)
      qed
    qed
  qed
qed

lemma call_each_frame:
  "(snd (call_each hs r env s))\<lparr>streams := x\<rparr> = s\<lparr>streams := x\<rparr>"
proof (induction hs arbitrary: s)
  case Nil
  show ?case by simp
next
  case (Cons h hs)
  show ?case
  proof (cases "h_level h \<le> levelno r")
    case False
    then show ?thesis using Cons by simp
  next
    case True
    obtain res s' where e: "StreamHandler_emit h r env s = (res, s')"
      by (cases "StreamHandler_emit h r env s")
    have s': "s'\<lparr>streams := x\<rparr> = s\<lparr>streams := x\<rparr>"
      using emit_frame [where h = h and r = r and env = env and s = s and x = x] e by simp
    show ?thesis
    proof (cases res)
      case None
      with True e s' Cons [where s = s'] show ?thesis by simp
    next
      case (Some a)
      with True e s' show ?thesis by simp
    qed
  qed
qed

lemma callHandlers_frame:
  assumes "root_handlers s \<noteq> []"
  shows "(snd (callHandlers r env s))\<lparr>streams := x\<rparr> = s\<lparr>streams := x\<rparr>"
proof -
  obtain res s' where c: "call_each (root_handlers s) r env s = (res, s')"
    by (cases "call_each (root_handlers s) r env s")
  have "s'\<lparr>streams := x\<rparr> = s\<lparr>streams := x\<rparr>"
    using call_each_frame [where hs = "root_handlers s" and r = r and env = env and s = s and x = x] c
    by simp
  then show ?thesis
    using assms c by (cases res) (simp_all add: callHandlers_def)
qed

lemma Logger_log_frame:
  assumes "root_handlers s \<noteq> []"
  shows "(snd (Logger_log level m as env s))\<lparr>streams := x\<rparr> = s\<lparr>streams := x\<rparr>"
  using callHandlers_frame [OF assms]
  by (simp add: Logger_log_def Logger__log_def Logger_handle_def)

lemma logging_log_frame:
  assumes "root_handlers s \<noteq> []"
  shows "(snd (logging_log level m as env s))\<lparr>streams := streams s\<rparr> = s"
  using assms Logger_log_frame [OF assms, where level = level and m = m and as = as and env = env and x = "streams s"]
  by (simp add: logging_log_def)

subsection \<open>Configuring again\<close>



lemma basicConfig_streams:
  "streams (basicConfig level format s) = streams s"
  "sys_stderr (basicConfig level format s) = sys_stderr s"
  by (simp_all add: basicConfig_def Let_def split: option.splits)



subsection \<open>Facts about the loaded state used by several claims\<close>

lemma streams_loaded: "streams (loaded ss r) = ss"
  by (simp add: loaded_eq)

lemma handlers_loaded: "root_handlers (loaded ss r) \<noteq> []"
  by (simp add: loaded_eq)

lemma threshold_loaded: "getEffectiveLevel (loaded ss r) = INFO"
  by (simp add: getEffectiveLevel_def loaded_eq INFO_def)

lemma logging_log_below:
  assumes "level < INFO"
  shows "logging_log level m as env (loaded ss r) = (None, loaded ss r)"
  using assms handlers_loaded [of ss r]
  by (simp add: logging_log_def Logger_log_def isEnabledFor_loaded)

lemma getMessage_no_args: "getMessage (makeRecord nm level m [] env) = Inr m"
  by (simp add: getMessage_def makeRecord_def)

lemma getMessage_with_args: "getMessage (makeRecord nm level ''%s!'' [''x''] env) = Inr ''x!''"
  by (simp add: getMessage_def makeRecord_def emit_str_def)

lemma log_info_working:
  assumes "fault (ss a) = None"
  shows "log_info m env (loaded ss (Some a)) =
           (None, loaded (ss(a := (ss a)\<lparr>written := written (ss a) @
              [formatTime (now env) @ '' - INFO - '' @ m @ terminator]\<rparr>)) (Some a))"
  using assms by (simp add: log_info_loaded)

lemma log_error_working:
  assumes "fault (ss a) = None"
  shows "log_error m env (loaded ss (Some a)) =
           (None, loaded (ss(a := (ss a)\<lparr>written := written (ss a) @
              [formatTime (now env) @ '' - ERROR - '' @ m @ terminator]\<rparr>)) (Some a))"
  using assms by (simp add: log_error_loaded)





section \<open>The claims\<close>

text \<open>
  Claim C1, as stated, fails for a message that holds a line feed:
  \<^verbatim>\<open>log_info('a\nb')\<close> puts two lines on the console, the time stamp with
  \<^verbatim>\<open>INFO\<close> and \<^verbatim>\<open>a\<close>, then \<^verbatim>\<open>b\<close>, and neither of them ends in the message.
\<close>

theorem log_info_line_feed_two_lines:
  "split_lines [] (concat (written (streams (snd (log_info ''a\<newline>b'' \<lparr>now = \<lparr>tm_year = 2024, tm_mon = 3, tm_mday = 7, tm_hour = 9, tm_min = 5, tm_sec = 8,
      msecs = 42\<rparr>, traceback_text = []\<rparr>
       (loaded (\<lambda>_. \<lparr>written = [], fault = None\<rparr>) (Some 2)))) 2))) =
     [''2024-03-07 09:05:08,042 - INFO - a'', ''b'']"
  by (simp add: log_info_loaded streams_loaded formatTime_example terminator_def)

text \<open>
  Claim C1, amended. For every message \<open>m\<close>, the empty one included,
  \<^verbatim>\<open>log_info(m)\<close> on a working stream returns normally and makes exactly one write:
  the time stamp, the level field \<^verbatim>\<open>INFO\<close>, then \<open>m\<close>, then one line feed. The
  record is never dropped and nothing else in the state changes. The written text is a
  single output line, which then ends in \<open>m\<close>, if and only if \<open>m\<close> holds no line
  feed.
\<close>

theorem log_info_emits_one_record:
  assumes "fault (ss a) = None"
  shows "log_info m env (loaded ss (Some a)) =
           (None, loaded (ss(a := (ss a)\<lparr>written := written (ss a) @
              [(formatTime (now env) @ '' - INFO - '' @ m) @ terminator]\<rparr>)) (Some a)) \<and>
         suffix m (formatTime (now env) @ '' - INFO - '' @ m) \<and>
         (split_lines [] ((formatTime (now env) @ '' - INFO - '' @ m) @ terminator) =
            [formatTime (now env) @ '' - INFO - '' @ m] \<longleftrightarrow> CHR ''\<newline>'' \<notin> set m)"
proof -
  have "suffix m (formatTime (now env) @ '' - INFO - '' @ m)"
    by (simp add: suffix_def)
  then show ?thesis
    using assms log_info_working [where ss = ss and a = a and m = m and env = env]
      written_text_lines(1) [of "now env" m]
    by simp
qed

theorem log_info_emits_one_record_witness:
  "fault ((\<lambda>_. \<lparr>written = [], fault = None\<rparr>) 2) = None \<and>
   log_info ''disk full'' \<lparr>now = \<lparr>tm_year = 2024, tm_mon = 3, tm_mday = 7, tm_hour = 9, tm_min = 5, tm_sec = 8,
      msecs = 42\<rparr>, traceback_text = []\<rparr> (loaded (\<lambda>_. \<lparr>written = [], fault = None\<rparr>) (Some 2)) =
     (None, loaded ((\<lambda>_. \<lparr>written = [], fault = None\<rparr>)
        (2 := \<lparr>written = [''2024-03-07 09:05:08,042 - INFO - disk full\<newline>''], fault = None\<rparr>))
        (Some 2)) \<and>
   split_lines [] ''2024-03-07 09:05:08,042 - INFO - disk full\<newline>'' =
     [''2024-03-07 09:05:08,042 - INFO - disk full'']"
  using log_info_emits_one_record [of "(\<lambda>_. \<lparr>written = [], fault = None\<rparr>)" 2 "''disk full''" "\<lparr>now = \<lparr>tm_year = 2024, tm_mon = 3, tm_mday = 7, tm_hour = 9, tm_min = 5, tm_sec = 8,
      msecs = 42\<rparr>, traceback_text = []\<rparr>"]
  by (simp add: formatTime_example terminator_def)

text \<open>
  Claim C2, as stated, fails in the same way: \<^verbatim>\<open>log_error('a\nb')\<close> puts two
  lines on the console and neither ends in the message.
\<close>

theorem log_error_line_feed_two_lines:
  "split_lines [] (concat (written (streams (snd (log_error ''a\<newline>b'' \<lparr>now = \<lparr>tm_year = 2024, tm_mon = 3, tm_mday = 7, tm_hour = 9, tm_min = 5, tm_sec = 8,
      msecs = 42\<rparr>, traceback_text = []\<rparr>
       (loaded (\<lambda>_. \<lparr>written = [], fault = None\<rparr>) (Some 2)))) 2))) =
     [''2024-03-07 09:05:08,042 - ERROR - a'', ''b'']"
  by (simp add: log_error_loaded streams_loaded formatTime_example terminator_def)

text \<open>
  Claim C2, amended. For every message \<open>m\<close>, the empty one included,
  \<^verbatim>\<open>log_error(m)\<close> on a working stream returns normally and makes exactly one
  write: the time stamp, the level field \<^verbatim>\<open>ERROR\<close>, then \<open>m\<close>, then one line feed.
  The record is never dropped. The written text is a single output line, which then
  ends in \<open>m\<close>, if and only if \<open>m\<close> holds no line feed.
\<close>

theorem log_error_emits_one_record:
  assumes "fault (ss a) = None"
  shows "log_error m env (loaded ss (Some a)) =
           (None, loaded (ss(a := (ss a)\<lparr>written := written (ss a) @
              [(formatTime (now env) @ '' - ERROR - '' @ m) @ terminator]\<rparr>)) (Some a)) \<and>
         suffix m (formatTime (now env) @ '' - ERROR - '' @ m) \<and>
         (split_lines [] ((formatTime (now env) @ '' - ERROR - '' @ m) @ terminator) =
            [formatTime (now env) @ '' - ERROR - '' @ m] \<longleftrightarrow> CHR ''\<newline>'' \<notin> set m)"
proof -
  have "suffix m (formatTime (now env) @ '' - ERROR - '' @ m)"
    by (simp add: suffix_def)
  then show ?thesis
    using assms log_error_working [where ss = ss and a = a and m = m and env = env]
      written_text_lines(2) [of "now env" m]
    by simp
qed

theorem log_error_emits_one_record_witness:
  "fault ((\<lambda>_. \<lparr>written = [''earlier\<newline>''], fault = None\<rparr>) 2) = None \<and>
   log_error ''disk full'' \<lparr>now = \<lparr>tm_year = 2024, tm_mon = 3, tm_mday = 7, tm_hour = 9, tm_min = 5, tm_sec = 8,
      msecs = 42\<rparr>, traceback_text = []\<rparr> (loaded (\<lambda>_. \<lparr>written = [''earlier\<newline>''], fault = None\<rparr>) (Some 2)) =
     (None, loaded ((\<lambda>_. \<lparr>written = [''earlier\<newline>''], fault = None\<rparr>)
        (2 := \<lparr>written = [''earlier\<newline>'',
                            ''2024-03-07 09:05:08,042 - ERROR - disk full\<newline>''],
               fault = None\<rparr>))
        (Some 2)) \<and>
   split_lines [] ''2024-03-07 09:05:08,042 - ERROR - disk full\<newline>'' =
     [''2024-03-07 09:05:08,042 - ERROR - disk full'']"
  using log_error_emits_one_record [of "(\<lambda>_. \<lparr>written = [''earlier\<newline>''], fault = None\<rparr>)" 2 "''disk full''" "\<lparr>now = \<lparr>tm_year = 2024, tm_mon = 3, tm_mday = 7, tm_hour = 9, tm_min = 5, tm_sec = 8,
      msecs = 42\<rparr>, traceback_text = []\<rparr>"]
  by (simp add: formatTime_example terminator_def)




text \<open>
  Claim C4. The threshold of the loaded module is \<^verbatim>\<open>INFO\<close>. A record below it
  changes nothing at all: it is not formatted, not written and kept nowhere, and the
  call returns the state it was given. Hence a call at any level, with any arguments,
  that changes a stream has a level at or above the threshold.
  \<^verbatim>\<open>log_info\<close> and \<^verbatim>\<open>log_error\<close> are this call at \<^verbatim>\<open>INFO\<close> and
  \<^verbatim>\<open>ERROR\<close>.
\<close>

theorem below_threshold_never_written:
  "getEffectiveLevel (loaded ss r) = INFO \<and>
   (level < INFO \<longrightarrow> logging_log level m as env (loaded ss r) = (None, loaded ss r)) \<and>
   (streams (snd (logging_log level m as env (loaded ss r))) \<noteq> ss \<longrightarrow> INFO \<le> level) \<and>
   log_info m env s = logging_log INFO m [] env s \<and>
   log_error m env s = logging_log ERROR m [] env s \<and>
   INFO \<le> ERROR"
proof -
  have "INFO \<le> level" if "streams (snd (logging_log level m as env (loaded ss r))) \<noteq> ss"
  proof (rule ccontr)
    assume "\<not> INFO \<le> level"
    then have "level < INFO" by simp
    then have "streams (snd (logging_log level m as env (loaded ss r))) = ss"
      by (simp add: logging_log_below streams_loaded)
    with that show False by simp
  qed
  moreover have "INFO \<le> ERROR"
    by (simp add: INFO_def ERROR_def)
  ultimately show ?thesis
    by (simp add: threshold_loaded logging_log_below log_info_is_log log_error_is_log)
qed

theorem below_threshold_never_written_witness:
  "DEBUG < INFO \<and>
   logging_log DEBUG ''dropped'' [] \<lparr>now = \<lparr>tm_year = 2024, tm_mon = 3, tm_mday = 7, tm_hour = 9, tm_min = 5, tm_sec = 8,
      msecs = 42\<rparr>, traceback_text = []\<rparr> (loaded (\<lambda>_. \<lparr>written = [], fault = None\<rparr>) (Some 2)) =
     (None, loaded (\<lambda>_. \<lparr>written = [], fault = None\<rparr>) (Some 2)) \<and>
   streams (snd (logging_log WARNING ''kept'' [] \<lparr>now = \<lparr>tm_year = 2024, tm_mon = 3, tm_mday = 7, tm_hour = 9, tm_min = 5, tm_sec = 8,
      msecs = 42\<rparr>, traceback_text = []\<rparr> (loaded (\<lambda>_. \<lparr>written = [], fault = None\<rparr>) (Some 2)))) \<noteq> (\<lambda>_. \<lparr>written = [], fault = None\<rparr>) \<and>
   INFO \<le> WARNING"
proof -
  let ?env = "\<lparr>now = \<lparr>tm_year = 2024, tm_mon = 3, tm_mday = 7, tm_hour = 9, tm_min = 5, tm_sec = 8,
      msecs = 42\<rparr>, traceback_text = []\<rparr>"
  let ?ss = "(\<lambda>_. \<lparr>written = [], fault = None\<rparr>)"
  have d: "DEBUG < INFO" and w: "INFO \<le> WARNING"
    by (simp_all add: DEBUG_def INFO_def WARNING_def)
  have c: "streams (snd (logging_log WARNING ''kept'' [] ?env (loaded ?ss (Some 2)))) \<noteq> ?ss"
    using w by (simp add: logging_log_loaded streams_loaded fun_upd_idem_iff)
  show ?thesis
    using below_threshold_never_written [of ?ss "Some 2" DEBUG "''dropped''" "[]" ?env]
      below_threshold_never_written [of ?ss "Some 2" WARNING "''kept''" "[]" ?env] d c
    by simp
qed

text \<open>
  Claim C5. Run as a script on a working stream, the module makes exactly two writes,
  each a single line: first the \<^verbatim>\<open>INFO\<close> line with
  \<^verbatim>\<open>This is an info message.\<close>, then the \<^verbatim>\<open>ERROR\<close> line with
  \<^verbatim>\<open>This is an error message.\<close>, and the process exits with status 0.
\<close>

theorem run_script_two_lines:
  assumes "fault (ss a) = None"
  shows "run_script env1 env2 ss (Some a) =
           (0, ss(a := (ss a)\<lparr>written := written (ss a) @
              [formatTime (now env1) @ '' - INFO - This is an info message.'' @ terminator,
               formatTime (now env2) @ '' - ERROR - This is an error message.'' @ terminator]\<rparr>)) \<and>
         split_lines []
           (concat
              [formatTime (now env1) @ '' - INFO - This is an info message.'' @ terminator,
               formatTime (now env2) @ '' - ERROR - This is an error message.'' @ terminator]) =
           [formatTime (now env1) @ '' - INFO - This is an info message.'',
            formatTime (now env2) @ '' - ERROR - This is an error message.'']"
proof -
  let ?l1 = "formatTime (now env1) @ '' - INFO - This is an info message.''"
  let ?l2 = "formatTime (now env2) @ '' - ERROR - This is an error message.''"
  let ?s1 = "ss(a := (ss a)\<lparr>written := written (ss a) @ [?l1 @ terminator]\<rparr>)"
  have 1: "log_info ''This is an info message.'' env1 (loaded ss (Some a)) =
      (None, loaded ?s1 (Some a))"
    using assms by (simp add: log_info_loaded)
  have 2: "log_error ''This is an error message.'' env2 (loaded ?s1 (Some a)) =
      (None, loaded (ss(a := (ss a)\<lparr>written := written (ss a) @
         [?l1 @ terminator, ?l2 @ terminator]\<rparr>)) (Some a))"
    using assms by (simp add: log_error_loaded)
  have run: "run_script env1 env2 ss (Some a) =
      (0, ss(a := (ss a)\<lparr>written := written (ss a) @ [?l1 @ terminator, ?l2 @ terminator]\<rparr>))"
    unfolding run_script_def module_body_def Let_def loaded_def [symmetric]
    by (simp only: 1 2 prod.case option.case simp_thms if_True exit_status_def streams_loaded)
  have n1: "CHR ''\<newline>'' \<notin> set ?l1" and n2: "CHR ''\<newline>'' \<notin> set ?l2"
    by (simp_all add: no_line_break_in_formatTime)
  have "split_lines [] (?l1 @ CHR ''\<newline>'' # ?l2 @ CHR ''\<newline>'' # []) = [?l1, ?l2]"
    using split_lines_first [OF n1, of "[]" "?l2 @ CHR ''\<newline>'' # []"]
      split_lines_first [OF n2, of "[]" "[]"]
    by simp
  then have "split_lines [] (concat [?l1 @ terminator, ?l2 @ terminator]) = [?l1, ?l2]"
    by (simp add: terminator_def)
  with run show ?thesis by simp
qed

theorem run_script_two_lines_witness:
  "fault ((\<lambda>_. \<lparr>written = [], fault = None\<rparr>) 2) = None \<and>
   run_script \<lparr>now = \<lparr>tm_year = 2024, tm_mon = 3, tm_mday = 7, tm_hour = 9, tm_min = 5, tm_sec = 8,
      msecs = 42\<rparr>, traceback_text = []\<rparr> \<lparr>now = \<lparr>tm_year = 2024, tm_mon = 3, tm_mday = 7, tm_hour = 9, tm_min = 5, tm_sec = 8,
      msecs = 42\<rparr>, traceback_text = []\<rparr> (\<lambda>_. \<lparr>written = [], fault = None\<rparr>) (Some 2) =
   (0, (\<lambda>_. \<lparr>written = [], fault = None\<rparr>)
      (2 := \<lparr>written = [''2024-03-07 09:05:08,042 - INFO - This is an info message.\<newline>'',
                         ''2024-03-07 09:05:08,042 - ERROR - This is an error message.\<newline>''],
             fault = None\<rparr>))"
  using run_script_two_lines [of "(\<lambda>_. \<lparr>written = [], fault = None\<rparr>)" 2 "\<lparr>now = \<lparr>tm_year = 2024, tm_mon = 3, tm_mday = 7, tm_hour = 9, tm_min = 5, tm_sec = 8,
      msecs = 42\<rparr>, traceback_text = []\<rparr>" "\<lparr>now = \<lparr>tm_year = 2024, tm_mon = 3, tm_mday = 7, tm_hour = 9, tm_min = 5, tm_sec = 8,
      msecs = 42\<rparr>, traceback_text = []\<rparr>"]
  by (simp add: formatTime_example terminator_def)

text \<open>
  Claim C6, as stated, fails: a closed standard error stream raises
  \<^verbatim>\<open>ValueError\<close> on \<^verbatim>\<open>write\<close>; \<^verbatim>\<open>StreamHandler.emit\<close> passes it to
  \<^verbatim>\<open>handleError\<close>, whose report goes to \<^verbatim>\<open>sys.stderr\<close>, here the same closed
  stream, fails the same way and is not an \<^verbatim>\<open>OSError\<close>, so the exception reaches
  the caller of \<^verbatim>\<open>log_info\<close>.
\<close>

theorem closed_stream_failure_reaches_caller:
  "fst (log_info ''x'' \<lparr>now = \<lparr>tm_year = 2024, tm_mon = 3, tm_mday = 7, tm_hour = 9, tm_min = 5, tm_sec = 8,
      msecs = 42\<rparr>, traceback_text = []\<rparr> (loaded (\<lambda>_. \<lparr>written = [], fault = Some ValueError\<rparr>) (Some 2))) = Some ValueError"
  by (simp add: log_info_loaded)

text \<open>
  Claim C6, amended. \<^verbatim>\<open>log_info(m)\<close> and \<^verbatim>\<open>log_error(m)\<close> return normally when
  the handler's stream accepts the write. A write that fails with an
  \<^verbatim>\<open>Exception\<close> other than \<^verbatim>\<open>RecursionError\<close>, which includes the failure of a
  handler created while \<^verbatim>\<open>sys.stderr\<close> was \<^verbatim>\<open>None\<close>, goes to
  \<^verbatim>\<open>Handler.handleError\<close> and does not reach the caller when \<^verbatim>\<open>sys.stderr\<close> is
  \<^verbatim>\<open>None\<close> or when the report on \<^verbatim>\<open>sys.stderr\<close> succeeds or fails with an
  \<^verbatim>\<open>OSError\<close>; when the report itself fails with another exception, as on a closed
  \<^verbatim>\<open>sys.stderr\<close> that is also the handler's stream, that exception is raised to the
  caller. A \<^verbatim>\<open>RecursionError\<close> and what is not an \<^verbatim>\<open>Exception\<close> are never
  caught. Here \<open>r\<close> is what \<^verbatim>\<open>sys.stderr\<close> was when the module was loaded, and
  \<open>r'\<close> what it is at the call.
\<close>

theorem write_failure_outcome:
  "fst (log_info m env ((loaded ss r)\<lparr>sys_stderr := r'\<rparr>)) =
     (let report =
            (case r' of
               None \<Rightarrow> None
             | Some b \<Rightarrow>
                 (case fault (ss b) of
                    None \<Rightarrow> None
                  | Some y \<Rightarrow> if y = OSError then None else Some y))
      in case r of
           None \<Rightarrow> report
         | Some a \<Rightarrow>
             (case fault (ss a) of
                None \<Rightarrow> None
              | Some x \<Rightarrow> if x = RecursionError \<or> \<not> is_Exception x then Some x else report)) \<and>
   fst (log_error m env ((loaded ss r)\<lparr>sys_stderr := r'\<rparr>)) =
     (let report =
            (case r' of
               None \<Rightarrow> None
             | Some b \<Rightarrow>
                 (case fault (ss b) of
                    None \<Rightarrow> None
                  | Some y \<Rightarrow> if y = OSError then None else Some y))
      in case r of
           None \<Rightarrow> report
         | Some a \<Rightarrow>
             (case fault (ss a) of
                None \<Rightarrow> None
              | Some x \<Rightarrow> if x = RecursionError \<or> \<not> is_Exception x then Some x else report))"
proof -
  have "INFO \<le> INFO" and "INFO \<le> ERROR"
    by (simp_all add: INFO_def ERROR_def)
  then show ?thesis
    by (simp only: log_info_is_log log_error_is_log logging_log_rebound simp_thms)
qed

theorem write_failure_outcome_witness:
  "fst (log_info ''x'' \<lparr>now = \<lparr>tm_year = 2024, tm_mon = 3, tm_mday = 7, tm_hour = 9, tm_min = 5, tm_sec = 8,
      msecs = 42\<rparr>, traceback_text = []\<rparr> ((loaded (\<lambda>_. \<lparr>written = [], fault = Some OSError\<rparr>) (Some 2))\<lparr>sys_stderr := Some 2\<rparr>)) = None \<and>
   fst (log_error ''x'' \<lparr>now = \<lparr>tm_year = 2024, tm_mon = 3, tm_mday = 7, tm_hour = 9, tm_min = 5, tm_sec = 8,
      msecs = 42\<rparr>, traceback_text = []\<rparr> ((loaded (\<lambda>_. \<lparr>written = [], fault = Some ValueError\<rparr>) None)\<lparr>sys_stderr := None\<rparr>)) = None \<and>
   fst (log_error ''x'' \<lparr>now = \<lparr>tm_year = 2024, tm_mon = 3, tm_mday = 7, tm_hour = 9, tm_min = 5, tm_sec = 8,
      msecs = 42\<rparr>, traceback_text = []\<rparr> ((loaded (\<lambda>_. \<lparr>written = [], fault = Some ValueError\<rparr>) (Some 2))\<lparr>sys_stderr := None\<rparr>)) = None \<and>
   fst (log_error ''x'' \<lparr>now = \<lparr>tm_year = 2024, tm_mon = 3, tm_mday = 7, tm_hour = 9, tm_min = 5, tm_sec = 8,
      msecs = 42\<rparr>, traceback_text = []\<rparr> ((loaded (\<lambda>_. \<lparr>written = [], fault = Some ValueError\<rparr>) (Some 2))\<lparr>sys_stderr := Some 2\<rparr>)) =
     Some ValueError"
  using write_failure_outcome [where m = "''x''" and env = "\<lparr>now = \<lparr>tm_year = 2024, tm_mon = 3, tm_mday = 7, tm_hour = 9, tm_min = 5, tm_sec = 8,
      msecs = 42\<rparr>, traceback_text = []\<rparr>" and ss = "(\<lambda>_. \<lparr>written = [], fault = Some OSError\<rparr>)"
      and r = "Some 2" and r' = "Some 2"]
    write_failure_outcome [where m = "''x''" and env = "\<lparr>now = \<lparr>tm_year = 2024, tm_mon = 3, tm_mday = 7, tm_hour = 9, tm_min = 5, tm_sec = 8,
      msecs = 42\<rparr>, traceback_text = []\<rparr>" and ss = "(\<lambda>_. \<lparr>written = [], fault = Some ValueError\<rparr>)"
      and r = "None" and r' = "None"]
    write_failure_outcome [where m = "''x''" and env = "\<lparr>now = \<lparr>tm_year = 2024, tm_mon = 3, tm_mday = 7, tm_hour = 9, tm_min = 5, tm_sec = 8,
      msecs = 42\<rparr>, traceback_text = []\<rparr>" and ss = "(\<lambda>_. \<lparr>written = [], fault = Some ValueError\<rparr>)"
      and r = "Some 2" and r' = "None"]
    write_failure_outcome [where m = "''x''" and env = "\<lparr>now = \<lparr>tm_year = 2024, tm_mon = 3, tm_mday = 7, tm_hour = 9, tm_min = 5, tm_sec = 8,
      msecs = 42\<rparr>, traceback_text = []\<rparr>" and ss = "(\<lambda>_. \<lparr>written = [], fault = Some ValueError\<rparr>)"
      and r = "Some 2" and r' = "Some 2"]
  by (simp add: is_Exception_def)



text \<open>
  Claim C8. The configuration writes to no stream, and a module that is imported (its
  \<^verbatim>\<open>__name__\<close> is not \<^verbatim>\<open>__main__\<close>) only runs the configuration: with no call
  of \<^verbatim>\<open>log_info\<close> or \<^verbatim>\<open>log_error\<close> no line is produced.
\<close>

theorem import_emits_nothing:
  "streams (configure s) = streams s \<and>
   (nm \<noteq> ''__main__'' \<longrightarrow>
      module_body nm env1 env2 (interpreter_start ss r) = (None, loaded ss r) \<and>
      streams (loaded ss r) = ss)"
  by (simp add: configure_def basicConfig_streams module_body_def loaded_def
      interpreter_start_def)

theorem import_emits_nothing_witness:
  "''logging_utils'' \<noteq> ''__main__'' \<and>
   module_body ''logging_utils'' \<lparr>now = \<lparr>tm_year = 2024, tm_mon = 3, tm_mday = 7, tm_hour = 9, tm_min = 5, tm_sec = 8,
      msecs = 42\<rparr>, traceback_text = []\<rparr> \<lparr>now = \<lparr>tm_year = 2024, tm_mon = 3, tm_mday = 7, tm_hour = 9, tm_min = 5, tm_sec = 8,
      msecs = 42\<rparr>, traceback_text = []\<rparr> (interpreter_start (\<lambda>_. \<lparr>written = [], fault = None\<rparr>) (Some 2)) =
     (None, loaded (\<lambda>_. \<lparr>written = [], fault = None\<rparr>) (Some 2)) \<and>
   streams (loaded (\<lambda>_. \<lparr>written = [], fault = None\<rparr>) (Some 2)) = (\<lambda>_. \<lparr>written = [], fault = None\<rparr>)"
  using import_emits_nothing [of "interpreter_start (\<lambda>_. \<lparr>written = [], fault = None\<rparr>) (Some 2)" "''logging_utils''"
      "\<lparr>now = \<lparr>tm_year = 2024, tm_mon = 3, tm_mday = 7, tm_hour = 9, tm_min = 5, tm_sec = 8,
      msecs = 42\<rparr>, traceback_text = []\<rparr>" "\<lparr>now = \<lparr>tm_year = 2024, tm_mon = 3, tm_mday = 7, tm_hour = 9, tm_min = 5, tm_sec = 8,
      msecs = 42\<rparr>, traceback_text = []\<rparr>" "(\<lambda>_. \<lparr>written = [], fault = None\<rparr>)" "Some 2"]
  by simp

text \<open>
  Claim C9. In every state in which the root logger has a handler, as it has once the
  module is loaded, \<^verbatim>\<open>log_info(m)\<close> and \<^verbatim>\<open>log_error(m)\<close> change nothing but the
  contents of the streams: the threshold, the handlers and their templates, the flags
  and the binding of \<^verbatim>\<open>sys.stderr\<close> are those of the state before the call. For the
  loaded module these are the threshold \<^verbatim>\<open>INFO\<close> and the template of line 6.
\<close>

theorem log_calls_keep_configuration:
  assumes "root_handlers s \<noteq> []"
  shows "(snd (log_info m env s))\<lparr>streams := streams s\<rparr> = s \<and>
         (snd (log_error m env s))\<lparr>streams := streams s\<rparr> = s \<and>
         getEffectiveLevel (snd (log_info m env (loaded ss r))) = INFO \<and>
         getEffectiveLevel (snd (log_error m env (loaded ss r))) = INFO \<and>
         map formatter (root_handlers (snd (log_info m env (loaded ss r)))) = [Some LOG_FORMAT] \<and>
         map formatter (root_handlers (snd (log_error m env (loaded ss r)))) = [Some LOG_FORMAT]"
proof -
  have i: "(snd (log_info m env s))\<lparr>streams := streams s\<rparr> = s" if "root_handlers s \<noteq> []" for s
    using that by (simp add: log_info_is_log logging_log_frame)
  have e: "(snd (log_error m env s))\<lparr>streams := streams s\<rparr> = s" if "root_handlers s \<noteq> []" for s
    using that by (simp add: log_error_is_log logging_log_frame)
  have li: "root_level (snd (log_info m env (loaded ss r))) = INFO \<and>
      root_handlers (snd (log_info m env (loaded ss r))) =
        [\<lparr>h_level = NOTSET, formatter = Some LOG_FORMAT, h_stream = Bound r\<rparr>]"
    using arg_cong [OF i [OF handlers_loaded [of ss r]], of root_level]
      arg_cong [OF i [OF handlers_loaded [of ss r]], of root_handlers]
    by (simp add: loaded_eq)
  have le: "root_level (snd (log_error m env (loaded ss r))) = INFO \<and>
      root_handlers (snd (log_error m env (loaded ss r))) =
        [\<lparr>h_level = NOTSET, formatter = Some LOG_FORMAT, h_stream = Bound r\<rparr>]"
    using arg_cong [OF e [OF handlers_loaded [of ss r]], of root_level]
      arg_cong [OF e [OF handlers_loaded [of ss r]], of root_handlers]
    by (simp add: loaded_eq)
  show ?thesis
    using i [OF assms] e [OF assms] li le
    by (simp add: getEffectiveLevel_def INFO_def)
qed

theorem log_calls_keep_configuration_witness:
  "root_handlers (loaded (\<lambda>_. \<lparr>written = [], fault = None\<rparr>) (Some 2)) \<noteq> [] \<and>
   (snd (log_info ''x'' \<lparr>now = \<lparr>tm_year = 2024, tm_mon = 3, tm_mday = 7, tm_hour = 9, tm_min = 5, tm_sec = 8,
      msecs = 42\<rparr>, traceback_text = []\<rparr> (loaded (\<lambda>_. \<lparr>written = [], fault = None\<rparr>) (Some 2))))\<lparr>streams := (\<lambda>_. \<lparr>written = [], fault = None\<rparr>)\<rparr> =
     loaded (\<lambda>_. \<lparr>written = [], fault = None\<rparr>) (Some 2)"
proof -
  have h: "root_handlers (loaded (\<lambda>_. \<lparr>written = [], fault = None\<rparr>) (Some 2)) \<noteq> []"
    by (simp add: loaded_eq)
  show ?thesis
    using h log_calls_keep_configuration [OF h, of "''x''" "\<lparr>now = \<lparr>tm_year = 2024, tm_mon = 3, tm_mday = 7, tm_hour = 9, tm_min = 5, tm_sec = 8,
      msecs = 42\<rparr>, traceback_text = []\<rparr>" "(\<lambda>_. \<lparr>written = [], fault = None\<rparr>)" "Some 2"]
    by (simp add: streams_loaded)
qed

text \<open>
  Claim C10. \<^verbatim>\<open>log_info\<close> and \<^verbatim>\<open>log_error\<close> pass no format arguments, so
  \<^verbatim>\<open>getMessage\<close> returns the caller's string as it is, and the formatter inserts it
  into the line without reading it as a template: a message holding \<^verbatim>\<open>%s\<close>,
  \<^verbatim>\<open>%d\<close> or \<^verbatim>\<open>%(levelname)s\<close> is the message field of the written text,
  character for character.
\<close>

theorem message_emitted_verbatim:
  "getMessage (makeRecord nm level m [] env) = Inr m \<and>
   Formatter_format LOG_FORMAT (makeRecord nm level m [] env) =
     Inr (formatTime (now env) @ '' - '' @ getLevelName level @ '' - '' @ m) \<and>
   (fault (ss a) = None \<longrightarrow>
      (\<exists>line. streams (snd (log_info m env (loaded ss (Some a)))) =
                 ss(a := (ss a)\<lparr>written := written (ss a) @ [line @ terminator]\<rparr>) \<and>
               split_max '' - '' 2 line ! 2 = m) \<and>
      (\<exists>line. streams (snd (log_error m env (loaded ss (Some a)))) =
                 ss(a := (ss a)\<lparr>written := written (ss a) @ [line @ terminator]\<rparr>) \<and>
               split_max '' - '' 2 line ! 2 = m))"
proof (intro conjI impI)
  show "getMessage (makeRecord nm level m [] env) = Inr m"
    by (rule getMessage_no_args)
  show "Formatter_format LOG_FORMAT (makeRecord nm level m [] env) =
     Inr (formatTime (now env) @ '' - '' @ getLevelName level @ '' - '' @ m)"
    by (rule Formatter_format_LOG_FORMAT)
next
  assume w: "fault (ss a) = None"
  have "streams (snd (log_info m env (loaded ss (Some a)))) =
      ss(a := (ss a)\<lparr>written := written (ss a) @
        [(formatTime (now env) @ '' - INFO - '' @ m) @ terminator]\<rparr>)"
    using w by (simp add: log_info_loaded streams_loaded)
  moreover have "split_max '' - '' 2 (formatTime (now env) @ '' - INFO - '' @ m) ! 2 = m"
    using split_line(1) [of "now env" m] by simp
  ultimately show "\<exists>line. streams (snd (log_info m env (loaded ss (Some a)))) =
                 ss(a := (ss a)\<lparr>written := written (ss a) @ [line @ terminator]\<rparr>) \<and>
               split_max '' - '' 2 line ! 2 = m"
    by blast
  have "streams (snd (log_error m env (loaded ss (Some a)))) =
      ss(a := (ss a)\<lparr>written := written (ss a) @
        [(formatTime (now env) @ '' - ERROR - '' @ m) @ terminator]\<rparr>)"
    using w by (simp add: log_error_loaded streams_loaded)
  moreover have "split_max '' - '' 2 (formatTime (now env) @ '' - ERROR - '' @ m) ! 2 = m"
    using split_line(2) [of "now env" m] by simp
  ultimately show "\<exists>line. streams (snd (log_error m env (loaded ss (Some a)))) =
                 ss(a := (ss a)\<lparr>written := written (ss a) @ [line @ terminator]\<rparr>) \<and>
               split_max '' - '' 2 line ! 2 = m"
    by blast
qed

theorem message_emitted_verbatim_witness:
  "getMessage (makeRecord ''root'' INFO ''100%s %d %(levelname)s'' [] \<lparr>now = \<lparr>tm_year = 2024, tm_mon = 3, tm_mday = 7, tm_hour = 9, tm_min = 5, tm_sec = 8,
      msecs = 42\<rparr>, traceback_text = []\<rparr>) =
     Inr ''100%s %d %(levelname)s'' \<and>
   (\<exists>line. streams (snd (log_info ''100%s %d %(levelname)s'' \<lparr>now = \<lparr>tm_year = 2024, tm_mon = 3, tm_mday = 7, tm_hour = 9, tm_min = 5, tm_sec = 8,
      msecs = 42\<rparr>, traceback_text = []\<rparr>
        (loaded (\<lambda>_. \<lparr>written = [], fault = None\<rparr>) (Some 2)))) =
        (\<lambda>_. \<lparr>written = [], fault = None\<rparr>)(2 := \<lparr>written = [line @ ''\<newline>''], fault = None\<rparr>) \<and>
      split_max '' - '' 2 line ! 2 = ''100%s %d %(levelname)s'')"
  using message_emitted_verbatim [of "''root''" INFO "''100%s %d %(levelname)s''"
      "\<lparr>now = \<lparr>tm_year = 2024, tm_mon = 3, tm_mday = 7, tm_hour = 9, tm_min = 5, tm_sec = 8,
      msecs = 42\<rparr>, traceback_text = []\<rparr>" "(\<lambda>_. \<lparr>written = [], fault = None\<rparr>)" 2]
  by (simp add: terminator_def)

end
